theory Spec2Isabelle
  imports Main
begin

section \<open>Directions and corners\<close>

text \<open>
  The four direction literals of \<^verbatim>\<open>win_tiling.py\<close>. In the source they are the strings
  "up", "down", "left" and "right"; \<open>dir_name\<close> gives the string of each, which is what
  \<^verbatim>\<open>sorted\<close> compares and what a client sends over the socket.
\<close>

datatype Direction = UP | DOWN | LEFT | RIGHT

fun dir_name :: "Direction \<Rightarrow> string" where
  "dir_name UP = ''up''"
| "dir_name DOWN = ''down''"
| "dir_name LEFT = ''left''"
| "dir_name RIGHT = ''right''"

type_synonym Corner = "Direction \<times> Direction"
type_synonym XY = "int \<times> int"
type_synonym WH = "int \<times> int"

text \<open>The dictionary \<^verbatim>\<open>opposites\<close>; every direction is a key, so the lookup is total.\<close>

fun opposites :: "Direction \<Rightarrow> Direction" where
  "opposites LEFT = RIGHT"
| "opposites RIGHT = LEFT"
| "opposites UP = DOWN"
| "opposites DOWN = UP"

text \<open>Python's \<^verbatim>\<open><\<close> on strings: lexicographic on code points.\<close>

fun str_lt :: "string \<Rightarrow> string \<Rightarrow> bool" where
  "str_lt [] [] = False"
| "str_lt [] (b # bs) = True"
| "str_lt (a # as) [] = False"
| "str_lt (a # as) (b # bs) =
     (if a = b then str_lt as bs else (of_char a :: nat) < of_char b)"

text \<open>
  \<^verbatim>\<open>first, second = sorted((dir1, dir2))\<close>: the stable sort of a pair swaps its two
  elements exactly when the second is smaller than the first.
\<close>

definition corner :: "Direction \<Rightarrow> Direction \<Rightarrow> Corner" where
  "corner dir1 dir2 =
     (if str_lt (dir_name dir2) (dir_name dir1) then (dir2, dir1) else (dir1, dir2))"

text \<open>The dictionary \<^verbatim>\<open>cornerstates\<close>, in the order in which the source writes it.\<close>

definition cornerstates :: "(Corner \<times> (Direction \<times> Direction) list) list" where
  "cornerstates =
     [(corner LEFT UP, [(DOWN, LEFT), (RIGHT, UP)]),
      (corner RIGHT UP, [(DOWN, RIGHT), (LEFT, UP)]),
      (corner DOWN LEFT, [(UP, LEFT), (RIGHT, DOWN)]),
      (corner DOWN RIGHT, [(UP, RIGHT), (LEFT, DOWN)])]"

text \<open>
  The value \<^verbatim>\<open>get_windowstate\<close> returns when it is not \<^verbatim>\<open>None\<close>: a direction (a string)
  or a corner (a tuple of two strings).
\<close>

datatype windowstate = OfDirection Direction | OfCorner Corner

section \<open>Rectangles and the screen\<close>

record Rect =
  rect_x :: int
  rect_y :: int
  rect_width :: int
  rect_height :: int

record GeometryContainer =
  window :: Rect
  parent :: Rect

record Screen =
  scr_x :: int
  scr_y :: int
  scr_w :: int
  scr_h :: int
  anchors :: "(Direction \<times> XY) list"
  sizes :: "(Direction \<times> WH) list"
  corneranchors :: "(Corner \<times> XY) list"
  cornersize :: WH

text \<open>
  \<^verbatim>\<open>Screen.__init__\<close>. The dictionaries are association lists in insertion order, the
  order in which \<^verbatim>\<open>stateinfo\<close> later iterates over them; \<^verbatim>\<open>//\<close> is floor division, as
  \<open>div\<close> on \<open>int\<close> is.
\<close>

definition base_anchors :: "int \<Rightarrow> int \<Rightarrow> (Direction \<times> XY) list" where
  "base_anchors w h =
     [(LEFT, (0, 0)), (RIGHT, (w div 2, 0)), (UP, (0, 0)), (DOWN, (0, h div 2))]"

definition base_corneranchors :: "int \<Rightarrow> int \<Rightarrow> (Corner \<times> XY) list" where
  "base_corneranchors w h =
     [(corner UP LEFT, (0, 0)),
      (corner UP RIGHT, (w div 2, 0)),
      (corner DOWN LEFT, (0, h div 2)),
      (corner DOWN RIGHT, (w div 2, h div 2))]"

definition Screen_init :: "int \<Rightarrow> int \<Rightarrow> int \<Rightarrow> int \<Rightarrow> Screen" where
  "Screen_init x y w h =
     \<lparr> scr_x = x, scr_y = y, scr_w = w, scr_h = h,
       anchors = map (\<lambda>(direction, (x_anchor, y_anchor)).
                        (direction, (x + x_anchor, y + y_anchor))) (base_anchors w h),
       sizes = [(LEFT, (w div 2, h)), (RIGHT, (w div 2, h)),
                (UP, (w, h div 2)), (DOWN, (w, h div 2))],
       corneranchors = map (\<lambda>(crn, (x_anchor, y_anchor)).
                              (crn, (x + x_anchor, y + y_anchor))) (base_corneranchors w h),
       cornersize = (w div 2, h div 2) \<rparr>"

section \<open>Errors\<close>

text \<open>
  The exceptions the modelled code can raise: a failed dictionary lookup, \<^verbatim>\<open>max\<close> of an
  empty sequence, \<^verbatim>\<open>sorted\<close> on a tuple and a string, an attribute access on a missing
  active window, a value that does not fit the 32-bit field of a display request, and
  whatever else a query of the display or of the monitors raises.
\<close>

datatype error =
  KeyError | ValueError | TypeError | AttributeError | OverflowError | QueryError

text \<open>
  \<^verbatim>\<open>Screen.stateinfo\<close> is a generator: each step yields a triple or, if
  \<^verbatim>\<open>self.sizes[direction]\<close> has no such key, raises; nothing follows a raise.
\<close>

fun stateinfo_directions ::
  "(Direction \<times> WH) list \<Rightarrow> (Direction \<times> XY) list \<Rightarrow> (error + windowstate \<times> XY \<times> WH) list" where
  "stateinfo_directions szs [] = []"
| "stateinfo_directions szs ((direction, anchor) # rest) =
     (case map_of szs direction of
        None \<Rightarrow> [Inl KeyError]
      | Some sz \<Rightarrow> Inr (OfDirection direction, anchor, sz) # stateinfo_directions szs rest)"

fun ends_raised :: "(error + 'a) list \<Rightarrow> bool" where
  "ends_raised [] = False"
| "ends_raised (Inl e # rest) = True"
| "ends_raised (Inr v # rest) = ends_raised rest"

definition stateinfo :: "Screen \<Rightarrow> (error + windowstate \<times> XY \<times> WH) list" where
  "stateinfo self =
     (let halves = stateinfo_directions (sizes self) (anchors self) in
      if ends_raised halves then halves
      else halves @ map (\<lambda>(crn, anchor). Inr (OfCorner crn, anchor, cornersize self))
                        (corneranchors self))"

section \<open>The display and the queries of the focused window\<close>

text \<open>
  What the program asks of its collaborators and what it tells them. The queries
  (\<^verbatim>\<open>get_geometry\<close> through ewmh, \<^verbatim>\<open>get_monitors\<close> of screeninfo) either give a value or
  raise; the requests sent to the display and the lines printed are appended to logs, so
  that "no call is made" is a statement about \<open>requests\<close>.
\<close>

datatype wm_atom = MAXIMIZED_HORZ | MAXIMIZED_VERT

datatype request =
    SetWmState int wm_atom
  | SetMoveResizeWindow int int int int
  | Flush

datatype printed =
    DebugMove Direction
  | DebugMaximise
  | DebugSubmove Corner
  | UnhandledEvent string

record world =
  geometry :: "error + GeometryContainer"
  monitors :: "error + Rect list"
  verbose :: bool
  stdout :: "printed list"
  requests :: "request list"

definition print_line :: "printed \<Rightarrow> world \<Rightarrow> world" where
  "print_line line wld = wld\<lparr>stdout := stdout wld @ [line]\<rparr>"

definition debug :: "printed \<Rightarrow> world \<Rightarrow> world" where
  "debug line wld = (if verbose wld then print_line line wld else wld)"

definition send_request :: "request \<Rightarrow> world \<Rightarrow> world" where
  "send_request r wld = wld\<lparr>requests := requests wld @ [r]\<rparr>"

definition get_geometry :: "world \<Rightarrow> error + GeometryContainer" where
  "get_geometry wld = geometry wld"

definition get_monitors :: "world \<Rightarrow> error + Rect list" where
  "get_monitors wld = monitors wld"

definition get_overlapping_area :: "Rect \<Rightarrow> Rect \<Rightarrow> int" where
  "get_overlapping_area r1 r2 =
     (let width = min (rect_x r1 + rect_width r1) (rect_x r2 + rect_width r2)
                    - max (rect_x r1) (rect_x r2);
          height = min (rect_y r1 + rect_height r1) (rect_y r2 + rect_height r2)
                     - max (rect_y r1) (rect_y r2)
      in max width 0 * max height 0)"

text \<open>
  Python's \<^verbatim>\<open>max(iterable, key=...)\<close>: the first element with the largest key; an empty
  iterable raises \<^verbatim>\<open>ValueError\<close>.
\<close>

fun max_loop :: "('a \<Rightarrow> int) \<Rightarrow> 'a \<Rightarrow> 'a list \<Rightarrow> 'a" where
  "max_loop key best [] = best"
| "max_loop key best (item # rest) =
     (if key best < key item then max_loop key item rest else max_loop key best rest)"

fun max_key :: "('a \<Rightarrow> int) \<Rightarrow> 'a list \<Rightarrow> error + 'a" where
  "max_key key [] = Inl ValueError"
| "max_key key (item # rest) = Inr (max_loop key item rest)"

definition get_active_monitor :: "world \<Rightarrow> error + Rect" where
  "get_active_monitor wld =
     (case get_geometry wld of
        Inl e \<Rightarrow> Inl e
      | Inr g \<Rightarrow>
          (case get_monitors wld of
             Inl e \<Rightarrow> Inl e
           | Inr ms \<Rightarrow> max_key (get_overlapping_area (parent g)) ms))"

definition get_screen :: "world \<Rightarrow> error + Screen" where
  "get_screen wld =
     (case get_active_monitor wld of
        Inl e \<Rightarrow> Inl e
      | Inr monitor \<Rightarrow>
          Inr (Screen_init (rect_x monitor) (rect_y monitor)
                 (rect_width monitor) (rect_height monitor)))"

text \<open>The \<^verbatim>\<open>for\<close> loop of \<^verbatim>\<open>get_windowstate\<close> over the generator, with its early return.\<close>

fun get_windowstate_loop ::
  "XY \<times> WH \<Rightarrow> (error + windowstate \<times> XY \<times> WH) list \<Rightarrow> error + windowstate option" where
  "get_windowstate_loop win [] = Inr None"
| "get_windowstate_loop win (Inl e # rest) = Inl e"
| "get_windowstate_loop win (Inr (state, anchor, sz) # rest) =
     (if win = (anchor, sz) then Inr (Some state) else get_windowstate_loop win rest)"

definition get_windowstate :: "world \<Rightarrow> error + windowstate option" where
  "get_windowstate wld =
     (case get_screen wld of
        Inl e \<Rightarrow> Inl e
      | Inr screen \<Rightarrow>
          (case get_geometry wld of
             Inl e \<Rightarrow> Inl e
           | Inr g \<Rightarrow>
               get_windowstate_loop
                 ((rect_x (parent g), rect_y (parent g)),
                  (rect_width (parent g), rect_height (parent g)))
                 (stateinfo screen)))"

definition get_decoration_dimensions :: "world \<Rightarrow> error + WH" where
  "get_decoration_dimensions wld =
     (case get_geometry wld of
        Inl e \<Rightarrow> Inl e
      | Inr g \<Rightarrow>
          Inr (rect_width (parent g) - rect_width (window g),
               rect_height (parent g) - rect_height (window g)))"

section \<open>Moving the window\<close>

text \<open>
  The library call \<^verbatim>\<open>e.setMoveResizeWindow(win, x=..., y=..., w=..., h=...)\<close> of ewmh
  0.1.6 (not part of the repository). It sends a client message whose data are the
  gravity flags and the four values; python-xlib packs them into an array of unsigned
  32-bit integers, and that raises \<^verbatim>\<open>OverflowError\<close> for a value below 0 or above
  \<open>2 ^ 32 - 1\<close>. Nothing is sent then. The data of \<^verbatim>\<open>setWmState\<close> (an action, two atoms
  and a source indication) are never negative.
\<close>

definition card32 :: "int \<Rightarrow> bool" where
  "card32 v = (0 \<le> v \<and> v < 2 ^ 32)"

definition setMoveResizeWindow :: "int \<Rightarrow> int \<Rightarrow> int \<Rightarrow> int \<Rightarrow> world \<Rightarrow> error + world" where
  "setMoveResizeWindow x y w h wld =
     (if card32 x \<and> card32 y \<and> card32 w \<and> card32 h
      then Inr (send_request (SetMoveResizeWindow x y w h) wld)
      else Inl OverflowError)"

text \<open>
  \<^verbatim>\<open>_move\<close>, here \<open>move_window\<close> (a name cannot start with an underscore): unmaximise,
  measure the decorations, then one \<^verbatim>\<open>setMoveResizeWindow\<close> and, if that returns, a
  flush. There is no \<^verbatim>\<open>max\<close> or \<^verbatim>\<open>min\<close> on the way.
\<close>

definition move_window :: "int \<Rightarrow> int \<Rightarrow> int \<Rightarrow> int \<Rightarrow> world \<Rightarrow> error + world" where
  "move_window x y w h wld =
     (let wld1 = send_request (SetWmState 0 MAXIMIZED_HORZ) wld;
          wld2 = send_request (SetWmState 0 MAXIMIZED_VERT) wld1
      in case get_decoration_dimensions wld2 of
           Inl e \<Rightarrow> Inl e
         | Inr (dec_w, dec_h) \<Rightarrow>
             (let border_width = dec_w div 2;
                  new_x = x + border_width;
                  new_y = y + dec_h - border_width;
                  new_w = w - dec_w;
                  new_h = h - dec_h
              in case setMoveResizeWindow new_x new_y new_w new_h wld2 of
                   Inl e \<Rightarrow> Inl e
                 | Inr wld3 \<Rightarrow> Inr (send_request Flush wld3)))"

definition move :: "Direction \<Rightarrow> world \<Rightarrow> error + world" where
  "move direction wld =
     (let wld1 = debug (DebugMove direction) wld in
      case get_screen wld1 of
        Inl e \<Rightarrow> Inl e
      | Inr screen \<Rightarrow>
          (case map_of (anchors screen) direction of
             None \<Rightarrow> Inl KeyError
           | Some (pos_x, pos_y) \<Rightarrow>
               (case map_of (sizes screen) direction of
                  None \<Rightarrow> Inl KeyError
                | Some (dim_w, dim_h) \<Rightarrow> move_window pos_x pos_y dim_w dim_h wld1)))"

definition maximise :: "world \<Rightarrow> error + world" where
  "maximise wld =
     (let wld1 = debug DebugMaximise wld in
      case get_screen wld1 of
        Inl e \<Rightarrow> Inl e
      | Inr screen \<Rightarrow>
          move_window (scr_x screen) (scr_y screen) (scr_w screen) (scr_h screen) wld1)"

definition cornermove :: "Corner \<Rightarrow> world \<Rightarrow> error + world" where
  "cornermove corner_direction wld =
     (let wld1 = debug (DebugSubmove corner_direction) wld in
      case get_screen wld1 of
        Inl e \<Rightarrow> Inl e
      | Inr screen \<Rightarrow>
          (case map_of (corneranchors screen) corner_direction of
             None \<Rightarrow> Inl KeyError
           | Some (x, y) \<Rightarrow>
               (case cornersize screen of (w, h) \<Rightarrow> move_window x y w h wld1)))"

text \<open>
  \<^verbatim>\<open>move_command\<close>. A string is never a key of \<^verbatim>\<open>cornerstates\<close>, so a direction skips
  the fourth test; a tuple that is not a key reaches \<^verbatim>\<open>corner(windowstate, direction)\<close>,
  where \<^verbatim>\<open>sorted\<close> compares a tuple with a string and raises \<^verbatim>\<open>TypeError\<close>.
\<close>

definition move_command :: "Direction \<Rightarrow> world \<Rightarrow> error + world" where
  "move_command direction wld =
     (case get_windowstate wld of
        Inl e \<Rightarrow> Inl e
      | Inr None \<Rightarrow> move direction wld
      | Inr (Some ws) \<Rightarrow>
          if ws = OfDirection direction then Inr wld
          else if ws = OfDirection (opposites direction) then maximise wld
          else (case ws of
                  OfCorner c \<Rightarrow>
                    (case map_of cornerstates c of
                       Some directions \<Rightarrow>
                         move (case map_of directions direction of
                                 None \<Rightarrow> direction
                               | Some move_direction \<Rightarrow> move_direction) wld
                     | None \<Rightarrow> Inl TypeError)
                | OfDirection d \<Rightarrow> cornermove (corner d direction) wld))"

section \<open>The command channel\<close>

text \<open>
  \<^verbatim>\<open>CALLBACKS\<close>: one entry per key of \<^verbatim>\<open>opposites\<close>, in its order, keyed by the string.
\<close>

definition CALLBACKS :: "(string \<times> (world \<Rightarrow> error + world)) list" where
  "CALLBACKS = map (\<lambda>direction. (dir_name direction, move_command direction))
                 [LEFT, RIGHT, UP, DOWN]"

text \<open>
  \<^verbatim>\<open>consume\<close> on the events that are in the queue. The \<^verbatim>\<open>while True\<close> loop has no exit:
  when the queue is drained it blocks in \<^verbatim>\<open>queue.get()\<close> (\<open>Blocked\<close>, the loop is
  alive), and it ends only when an exception leaves it (\<open>Crashed\<close>, with the events
  never taken from the queue). The \<^verbatim>\<open>try\<close> covers the lookup \<^verbatim>\<open>callbacks[event]\<close> alone;
  \<^verbatim>\<open>callback()\<close> runs in the \<^verbatim>\<open>else\<close> branch, outside every handler.
\<close>

datatype consumed = Blocked world | Crashed error "string list"

fun consume ::
  "string list \<Rightarrow> (string \<times> (world \<Rightarrow> error + world)) list \<Rightarrow> world \<Rightarrow> consumed" where
  "consume [] callbacks wld = Blocked wld"
| "consume (event # queue) callbacks wld =
     (case map_of callbacks event of
        None \<Rightarrow> consume queue callbacks (print_line (UnhandledEvent event) wld)
      | Some callback \<Rightarrow>
          (case callback wld of
             Inl e \<Rightarrow> Crashed e queue
           | Inr wld' \<Rightarrow> consume queue callbacks wld'))"

section \<open>Notions of the specification\<close>

text \<open>
  A corner in the specification's sense: a pair of two different, non-opposite directions,
  written in the order of their names.
\<close>

definition is_corner :: "Corner \<Rightarrow> bool" where
  "is_corner c =
     (case c of (first, second) \<Rightarrow>
        first \<noteq> second \<and> first \<noteq> opposites second
        \<and> str_lt (dir_name first) (dir_name second))"

text \<open>The pixels a rectangle covers: origin top-left, the far edges excluded.\<close>

definition rect_pixels :: "Rect \<Rightarrow> (int \<times> int) set" where
  "rect_pixels r =
     {rect_x r ..< rect_x r + rect_width r} \<times> {rect_y r ..< rect_y r + rect_height r}"

text \<open>The pixels of the quarter of a screen at a corner, from its anchor and the shared size.\<close>

definition quarter_region :: "Screen \<Rightarrow> Corner \<Rightarrow> (int \<times> int) set" where
  "quarter_region screen c =
     (case map_of (corneranchors screen) c of
        None \<Rightarrow> {}
      | Some (ax, ay) \<Rightarrow>
          rect_pixels \<lparr>rect_x = ax, rect_y = ay,
                       rect_width = fst (cornersize screen),
                       rect_height = snd (cornersize screen)\<rparr>)"

text \<open>
  The enumeration of the specification (section 4.1): the four halves in the order LEFT,
  RIGHT, UP, DOWN, then the four quarters, each with its anchor and size. It is compared
  below with \<open>stateinfo\<close>, which is the code.
\<close>

definition positions :: "int \<Rightarrow> int \<Rightarrow> int \<Rightarrow> int \<Rightarrow> (windowstate \<times> XY \<times> WH) list" where
  "positions x y w h =
     [(OfDirection LEFT, (x, y), (w div 2, h)),
      (OfDirection RIGHT, (x + w div 2, y), (w div 2, h)),
      (OfDirection UP, (x, y), (w, h div 2)),
      (OfDirection DOWN, (x, y + h div 2), (w, h div 2)),
      (OfCorner (LEFT, UP), (x, y), (w div 2, h div 2)),
      (OfCorner (RIGHT, UP), (x + w div 2, y), (w div 2, h div 2)),
      (OfCorner (DOWN, LEFT), (x, y + h div 2), (w div 2, h div 2)),
      (OfCorner (DOWN, RIGHT), (x + w div 2, y + h div 2), (w div 2, h div 2))]"

text \<open>
  Worlds to run the program on: one monitor of 1920 by 1080 at the origin, and a focused
  window whose frame (the parent, decorations included) is the given rectangle, with
  decorations 10 wide and 30 high; and the same monitor with no focused window, where
  \<^verbatim>\<open>getActiveWindow()\<close> gives \<^verbatim>\<open>None\<close> and the next attribute access raises.
\<close>

definition example_monitor :: Rect where
  "example_monitor = \<lparr>rect_x = 0, rect_y = 0, rect_width = 1920, rect_height = 1080\<rparr>"

definition example_world :: "Rect \<Rightarrow> world" where
  "example_world frame =
     \<lparr> geometry = Inr \<lparr> window = \<lparr>rect_x = 5, rect_y = 25,
                                   rect_width = rect_width frame - 10,
                                   rect_height = rect_height frame - 30\<rparr>,
                        parent = frame \<rparr>,
       monitors = Inr [example_monitor],
       verbose = False, stdout = [], requests = [] \<rparr>"

text \<open>
  The same monitor with an untiled window at \<open>(100, 100)\<close>, 800 by 600 with its
  decorations, which are 10 wide and only 2 high.
\<close>

definition thin_title_world :: world where
  "thin_title_world =
     \<lparr> geometry = Inr \<lparr> window = \<lparr>rect_x = 5, rect_y = 2,
                                   rect_width = 790, rect_height = 598\<rparr>,
                        parent = \<lparr>rect_x = 100, rect_y = 100,
                                   rect_width = 800, rect_height = 600\<rparr> \<rparr>,
       monitors = Inr [example_monitor],
       verbose = False, stdout = [], requests = [] \<rparr>"

definition unfocused_world :: world where
  "unfocused_world =
     \<lparr> geometry = Inl AttributeError, monitors = Inr [example_monitor],
       verbose = False, stdout = [], requests = [] \<rparr>"

section \<open>Corners\<close>

lemma corner_values:
  "corner UP UP = (UP, UP)" "corner UP DOWN = (DOWN, UP)"
  "corner UP LEFT = (LEFT, UP)" "corner UP RIGHT = (RIGHT, UP)"
  "corner DOWN UP = (DOWN, UP)" "corner DOWN DOWN = (DOWN, DOWN)"
  "corner DOWN LEFT = (DOWN, LEFT)" "corner DOWN RIGHT = (DOWN, RIGHT)"
  "corner LEFT UP = (LEFT, UP)" "corner LEFT DOWN = (DOWN, LEFT)"
  "corner LEFT LEFT = (LEFT, LEFT)" "corner LEFT RIGHT = (LEFT, RIGHT)"
  "corner RIGHT UP = (RIGHT, UP)" "corner RIGHT DOWN = (DOWN, RIGHT)"
  "corner RIGHT LEFT = (LEFT, RIGHT)" "corner RIGHT RIGHT = (RIGHT, RIGHT)"
  by (simp_all add: corner_def)

lemma cornerstates_eq:
  "cornerstates =
     [((LEFT, UP), [(DOWN, LEFT), (RIGHT, UP)]),
      ((RIGHT, UP), [(DOWN, RIGHT), (LEFT, UP)]),
      ((DOWN, LEFT), [(UP, LEFT), (RIGHT, DOWN)]),
      ((DOWN, RIGHT), [(UP, RIGHT), (LEFT, DOWN)])]"
  by (simp add: cornerstates_def corner_values)

lemma Screen_init_simps:
  "scr_x (Screen_init x y w h) = x"
  "scr_y (Screen_init x y w h) = y"
  "scr_w (Screen_init x y w h) = w"
  "scr_h (Screen_init x y w h) = h"
  "anchors (Screen_init x y w h) =
     [(LEFT, (x, y)), (RIGHT, (x + w div 2, y)), (UP, (x, y)), (DOWN, (x, y + h div 2))]"
  "sizes (Screen_init x y w h) =
     [(LEFT, (w div 2, h)), (RIGHT, (w div 2, h)), (UP, (w, h div 2)), (DOWN, (w, h div 2))]"
  "corneranchors (Screen_init x y w h) =
     [((LEFT, UP), (x, y)), ((RIGHT, UP), (x + w div 2, y)),
      ((DOWN, LEFT), (x, y + h div 2)), ((DOWN, RIGHT), (x + w div 2, y + h div 2))]"
  "cornersize (Screen_init x y w h) = (w div 2, h div 2)"
  by (simp_all add: Screen_init_def base_anchors_def base_corneranchors_def corner_values)

lemma is_corner_iff:
  "is_corner c \<longleftrightarrow> c \<in> {(DOWN, LEFT), (DOWN, RIGHT), (LEFT, UP), (RIGHT, UP)}"
proof (cases c)
  case (Pair a b)
  then show ?thesis
    by (cases a; cases b) (simp_all add: is_corner_def)
qed

lemma corner_is_corner:
  "h \<noteq> d \<Longrightarrow> h \<noteq> opposites d \<Longrightarrow> is_corner (corner h d)"
  by (cases h; cases d) (simp_all add: corner_values is_corner_iff)

text \<open>
  Claim C9. \<open>corner\<close> does not depend on the order of its arguments and returns the two
  directions sorted by name. The corners in the specification's sense are exactly four;
  they are the keys of \<open>cornerstates\<close> and the keys of the corner anchors of every
  screen, and \<open>corner current requested\<close> is one of them whenever the requested
  direction is neither the current half nor its opposite. A pair of opposite directions
  is not among them.
\<close>

theorem corner_canonical:
  "corner d1 d2 = corner d2 d1
   \<and> {fst (corner d1 d2), snd (corner d1 d2)} = {d1, d2}
   \<and> \<not> str_lt (dir_name (snd (corner d1 d2))) (dir_name (fst (corner d1 d2)))
   \<and> Collect is_corner = {(DOWN, LEFT), (DOWN, RIGHT), (LEFT, UP), (RIGHT, UP)}
   \<and> card (Collect is_corner) = 4
   \<and> set (map fst cornerstates) = Collect is_corner
   \<and> set (map fst (corneranchors (Screen_init x y w h))) = Collect is_corner
   \<and> (current \<noteq> requested \<and> current \<noteq> opposites requested
        \<longrightarrow> is_corner (corner current requested))
   \<and> \<not> is_corner (d1, opposites d1) \<and> \<not> is_corner (opposites d1, d1)"
proof -
  have c1: "corner d1 d2 = corner d2 d1"
    by (cases d1; cases d2) (simp_all add: corner_values)
  have c2: "{fst (corner d1 d2), snd (corner d1 d2)} = {d1, d2}"
    by (auto simp: corner_def)
  have c3: "\<not> str_lt (dir_name (snd (corner d1 d2))) (dir_name (fst (corner d1 d2)))"
    by (cases d1; cases d2) (simp_all add: corner_values)
  have c4: "Collect is_corner = {(DOWN, LEFT), (DOWN, RIGHT), (LEFT, UP), (RIGHT, UP)}"
    using is_corner_iff by blast
  have c5: "card (Collect is_corner) = 4"
    unfolding c4 by simp
  have c6: "set (map fst cornerstates) = Collect is_corner"
    unfolding c4 cornerstates_eq by auto
  have c7: "set (map fst (corneranchors (Screen_init x y w h))) = Collect is_corner"
    unfolding c4 Screen_init_simps by auto
  have c8: "current \<noteq> requested \<and> current \<noteq> opposites requested
              \<longrightarrow> is_corner (corner current requested)"
    using corner_is_corner by blast
  have c9: "\<not> is_corner (d1, opposites d1) \<and> \<not> is_corner (opposites d1, d1)"
    by (cases d1) (simp_all add: is_corner_iff)
  from c1 c2 c3 c4 c5 c6 c7 c8 c9 show ?thesis by blast
qed

theorem corner_canonical_witness:
  "LEFT \<noteq> UP \<and> LEFT \<noteq> opposites UP \<and> is_corner (corner LEFT UP)
   \<and> corner LEFT UP = (LEFT, UP) \<and> corner UP LEFT = (LEFT, UP)"
  using corner_canonical [where current = LEFT and requested = UP and ?d1.0 = LEFT and ?d2.0 = UP]
  by (simp add: corner_def)

section \<open>The geometry of a screen\<close>

text \<open>
  Claim C2. For every screen rectangle (non-negative or not), the screen built from it
  has half sizes \<open>(w div 2, h)\<close> for LEFT and RIGHT and \<open>(w, h div 2)\<close> for UP and DOWN,
  the half anchors and the four corner anchors of the specification, and one quarter
  size \<open>(w div 2, h div 2)\<close>; its dictionaries have no other key.
\<close>

theorem Screen_init_geometry:
  "map_of (sizes (Screen_init x y w h)) LEFT = Some (w div 2, h)
   \<and> map_of (sizes (Screen_init x y w h)) RIGHT = Some (w div 2, h)
   \<and> map_of (sizes (Screen_init x y w h)) UP = Some (w, h div 2)
   \<and> map_of (sizes (Screen_init x y w h)) DOWN = Some (w, h div 2)
   \<and> map_of (anchors (Screen_init x y w h)) LEFT = Some (x, y)
   \<and> map_of (anchors (Screen_init x y w h)) RIGHT = Some (x + w div 2, y)
   \<and> map_of (anchors (Screen_init x y w h)) UP = Some (x, y)
   \<and> map_of (anchors (Screen_init x y w h)) DOWN = Some (x, y + h div 2)
   \<and> cornersize (Screen_init x y w h) = (w div 2, h div 2)
   \<and> map_of (corneranchors (Screen_init x y w h)) (corner UP LEFT) = Some (x, y)
   \<and> map_of (corneranchors (Screen_init x y w h)) (corner UP RIGHT) = Some (x + w div 2, y)
   \<and> map_of (corneranchors (Screen_init x y w h)) (corner DOWN LEFT) = Some (x, y + h div 2)
   \<and> map_of (corneranchors (Screen_init x y w h)) (corner DOWN RIGHT)
       = Some (x + w div 2, y + h div 2)
   \<and> dom (map_of (corneranchors (Screen_init x y w h)))
       = {corner UP LEFT, corner UP RIGHT, corner DOWN LEFT, corner DOWN RIGHT}
   \<and> dom (map_of (anchors (Screen_init x y w h))) = {LEFT, RIGHT, UP, DOWN}
   \<and> dom (map_of (sizes (Screen_init x y w h))) = {LEFT, RIGHT, UP, DOWN}"
  by (simp add: Screen_init_simps corner_values dom_map_of_conv_image_fst insert_commute)

lemma quarter_region_simps:
  "quarter_region (Screen_init x y w h) (LEFT, UP) =
     {x ..< x + w div 2} \<times> {y ..< y + h div 2}"
  "quarter_region (Screen_init x y w h) (RIGHT, UP) =
     {x + w div 2 ..< x + w div 2 + w div 2} \<times> {y ..< y + h div 2}"
  "quarter_region (Screen_init x y w h) (DOWN, LEFT) =
     {x ..< x + w div 2} \<times> {y + h div 2 ..< y + h div 2 + h div 2}"
  "quarter_region (Screen_init x y w h) (DOWN, RIGHT) =
     {x + w div 2 ..< x + w div 2 + w div 2} \<times> {y + h div 2 ..< y + h div 2 + h div 2}"
  by (simp_all add: quarter_region_def Screen_init_simps rect_pixels_def)

lemma quarters_disjoint:
  "quarter_region (Screen_init x y w h) (LEFT, UP)
     \<inter> quarter_region (Screen_init x y w h) (RIGHT, UP) = {}"
  "quarter_region (Screen_init x y w h) (LEFT, UP)
     \<inter> quarter_region (Screen_init x y w h) (DOWN, LEFT) = {}"
  "quarter_region (Screen_init x y w h) (LEFT, UP)
     \<inter> quarter_region (Screen_init x y w h) (DOWN, RIGHT) = {}"
  "quarter_region (Screen_init x y w h) (RIGHT, UP)
     \<inter> quarter_region (Screen_init x y w h) (DOWN, LEFT) = {}"
  "quarter_region (Screen_init x y w h) (RIGHT, UP)
     \<inter> quarter_region (Screen_init x y w h) (DOWN, RIGHT) = {}"
  "quarter_region (Screen_init x y w h) (DOWN, LEFT)
     \<inter> quarter_region (Screen_init x y w h) (DOWN, RIGHT) = {}"
  unfolding quarter_region_simps by auto

lemma quarters_union:
  "quarter_region (Screen_init x y w h) (LEFT, UP)
     \<union> quarter_region (Screen_init x y w h) (RIGHT, UP)
     \<union> quarter_region (Screen_init x y w h) (DOWN, LEFT)
     \<union> quarter_region (Screen_init x y w h) (DOWN, RIGHT)
   = {x ..< x + 2 * (w div 2)} \<times> {y ..< y + 2 * (h div 2)}"
  unfolding quarter_region_simps by auto

lemma quarters_subset:
  "{x ..< x + 2 * (w div 2)} \<times> {y ..< y + 2 * (h div 2)}
     \<subseteq> rect_pixels \<lparr>rect_x = x, rect_y = y, rect_width = w, rect_height = h\<rparr>"
proof -
  have "2 * (w div 2) \<le> w" "2 * (h div 2) \<le> h" by presburger+
  then show ?thesis by (auto simp: rect_pixels_def)
qed

text \<open>
  Claim C8. The widths of LEFT and RIGHT add up to \<open>w\<close> or \<open>w - 1\<close>, each with the full
  height; the heights of UP and DOWN add up to \<open>h\<close> or \<open>h - 1\<close>, each with the full
  width; and the area the four quarters miss is what the two floors lose. As sets of
  pixels the four quarters are pairwise disjoint, and together they are the screen without
  the last column when \<open>w\<close> is odd and without the last row when \<open>h\<close> is odd.
\<close>

theorem Screen_init_partition:
  "(\<exists>lw lh rw rh.
      map_of (sizes (Screen_init x y w h)) LEFT = Some (lw, lh)
      \<and> map_of (sizes (Screen_init x y w h)) RIGHT = Some (rw, rh)
      \<and> (lw + rw = w \<or> lw + rw = w - 1) \<and> lh = h \<and> rh = h)
   \<and> (\<exists>uw uh dw dh.
      map_of (sizes (Screen_init x y w h)) UP = Some (uw, uh)
      \<and> map_of (sizes (Screen_init x y w h)) DOWN = Some (dw, dh)
      \<and> (uh + dh = h \<or> uh + dh = h - 1) \<and> uw = w \<and> dw = w)
   \<and> (\<exists>qw qh.
      cornersize (Screen_init x y w h) = (qw, qh)
      \<and> w * h - 4 * (qw * qh) = (w mod 2) * h + (h mod 2) * w - (w mod 2) * (h mod 2))
   \<and> quarter_region (Screen_init x y w h) (corner UP LEFT)
       \<inter> quarter_region (Screen_init x y w h) (corner UP RIGHT) = {}
   \<and> quarter_region (Screen_init x y w h) (corner UP LEFT)
       \<inter> quarter_region (Screen_init x y w h) (corner DOWN LEFT) = {}
   \<and> quarter_region (Screen_init x y w h) (corner UP LEFT)
       \<inter> quarter_region (Screen_init x y w h) (corner DOWN RIGHT) = {}
   \<and> quarter_region (Screen_init x y w h) (corner UP RIGHT)
       \<inter> quarter_region (Screen_init x y w h) (corner DOWN LEFT) = {}
   \<and> quarter_region (Screen_init x y w h) (corner UP RIGHT)
       \<inter> quarter_region (Screen_init x y w h) (corner DOWN RIGHT) = {}
   \<and> quarter_region (Screen_init x y w h) (corner DOWN LEFT)
       \<inter> quarter_region (Screen_init x y w h) (corner DOWN RIGHT) = {}
   \<and> quarter_region (Screen_init x y w h) (corner UP LEFT)
       \<union> quarter_region (Screen_init x y w h) (corner UP RIGHT)
       \<union> quarter_region (Screen_init x y w h) (corner DOWN LEFT)
       \<union> quarter_region (Screen_init x y w h) (corner DOWN RIGHT)
     = {x ..< x + 2 * (w div 2)} \<times> {y ..< y + 2 * (h div 2)}
   \<and> {x ..< x + 2 * (w div 2)} \<times> {y ..< y + 2 * (h div 2)}
       \<subseteq> rect_pixels \<lparr>rect_x = x, rect_y = y, rect_width = w, rect_height = h\<rparr>"
proof -
  have a: "w div 2 + w div 2 = w \<or> w div 2 + w div 2 = w - 1" by presburger
  have b: "h div 2 + h div 2 = h \<or> h div 2 + h div 2 = h - 1" by presburger
  have "4 * ((w div 2) * (h div 2)) = (2 * (w div 2)) * (2 * (h div 2))" by simp
  also have "\<dots> = (w - w mod 2) * (h - h mod 2)"
    by (simp add: minus_mod_eq_mult_div)
  finally have c: "w * h - 4 * ((w div 2) * (h div 2))
      = (w mod 2) * h + (h mod 2) * w - (w mod 2) * (h mod 2)"
    by (simp add: algebra_simps)
  from a b c have sizes_part: "(\<exists>lw lh rw rh.
      map_of (sizes (Screen_init x y w h)) LEFT = Some (lw, lh)
      \<and> map_of (sizes (Screen_init x y w h)) RIGHT = Some (rw, rh)
      \<and> (lw + rw = w \<or> lw + rw = w - 1) \<and> lh = h \<and> rh = h)
   \<and> (\<exists>uw uh dw dh.
      map_of (sizes (Screen_init x y w h)) UP = Some (uw, uh)
      \<and> map_of (sizes (Screen_init x y w h)) DOWN = Some (dw, dh)
      \<and> (uh + dh = h \<or> uh + dh = h - 1) \<and> uw = w \<and> dw = w)
   \<and> (\<exists>qw qh.
      cornersize (Screen_init x y w h) = (qw, qh)
      \<and> w * h - 4 * (qw * qh) = (w mod 2) * h + (h mod 2) * w - (w mod 2) * (h mod 2))"
    by (simp add: Screen_init_simps)
  from sizes_part quarters_disjoint [of x y w h] quarters_union [of x y w h]
    quarters_subset [of x w y h]
  show ?thesis
    unfolding corner_values by blast
qed


section \<open>The overlap of two rectangles\<close>

lemma rect_pixels_Int:
  "rect_pixels r1 \<inter> rect_pixels r2 =
     {max (rect_x r1) (rect_x r2) ..<
        min (rect_x r1 + rect_width r1) (rect_x r2 + rect_width r2)}
     \<times> {max (rect_y r1) (rect_y r2) ..<
        min (rect_y r1 + rect_height r1) (rect_y r2 + rect_height r2)}"
  by (auto simp: rect_pixels_def)

lemma int_nat_max: "int (nat k) = max k 0"
  by simp

lemma get_overlapping_area_card:
  "get_overlapping_area r1 r2 = int (card (rect_pixels r1 \<inter> rect_pixels r2))"
  unfolding rect_pixels_Int
  by (simp only: card_cartesian_product card_atLeastLessThan_int of_nat_mult int_nat_max
        get_overlapping_area_def Let_def)

lemma get_overlapping_area_commute:
  "get_overlapping_area r1 r2 = get_overlapping_area r2 r1"
  by (simp add: get_overlapping_area_def Let_def min.commute max.commute)

lemma max_key_cong:
  "(\<And>m. f m = g m) \<Longrightarrow> max_key f ms = max_key g ms"
proof -
  assume "\<And>m. f m = g m"
  then have "f = g" by (rule ext)
  then show ?thesis by simp
qed

text \<open>
  Claim C10. \<open>get_overlapping_area\<close> is symmetric and never negative; it is the number
  of pixels the two rectangles share, so it is 0 when they share none; and the monitor
  that \<^verbatim>\<open>max\<close> picks is the same with the arguments of the key swapped.
\<close>

theorem get_overlapping_area_symmetric:
  "get_overlapping_area r1 r2 = get_overlapping_area r2 r1
   \<and> 0 \<le> get_overlapping_area r1 r2
   \<and> (rect_pixels r1 \<inter> rect_pixels r2 = {} \<longrightarrow> get_overlapping_area r1 r2 = 0)
   \<and> get_overlapping_area r1 r2 = int (card (rect_pixels r1 \<inter> rect_pixels r2))
   \<and> max_key (get_overlapping_area r1) ms = max_key (\<lambda>m. get_overlapping_area m r1) ms"
proof -
  have a: "get_overlapping_area r1 r2 = int (card (rect_pixels r1 \<inter> rect_pixels r2))"
    by (rule get_overlapping_area_card)
  have b: "max_key (get_overlapping_area r1) ms = max_key (\<lambda>m. get_overlapping_area m r1) ms"
    by (rule max_key_cong) (rule get_overlapping_area_commute)
  from a b get_overlapping_area_commute [of r1 r2] show ?thesis by simp
qed

theorem get_overlapping_area_symmetric_witness:
  "rect_pixels \<lparr>rect_x = 0, rect_y = 0, rect_width = 10, rect_height = 10\<rparr>
     \<inter> rect_pixels \<lparr>rect_x = 20, rect_y = 0, rect_width = 10, rect_height = 10\<rparr> = {}
   \<and> get_overlapping_area \<lparr>rect_x = 0, rect_y = 0, rect_width = 10, rect_height = 10\<rparr>
        \<lparr>rect_x = 20, rect_y = 0, rect_width = 10, rect_height = 10\<rparr> = 0"
proof -
  have h: "rect_pixels \<lparr>rect_x = 0, rect_y = 0, rect_width = 10, rect_height = 10\<rparr>
     \<inter> rect_pixels \<lparr>rect_x = 20, rect_y = 0, rect_width = 10, rect_height = 10\<rparr> = {}"
    by (auto simp: rect_pixels_def)
  from h get_overlapping_area_symmetric
    [of "\<lparr>rect_x = 0, rect_y = 0, rect_width = 10, rect_height = 10\<rparr>"
        "\<lparr>rect_x = 20, rect_y = 0, rect_width = 10, rect_height = 10\<rparr>" "[]"]
  show ?thesis by blast
qed

section \<open>The decoration insets\<close>

lemma move_window_requests:
  "get_decoration_dimensions wld = Inr (dec_w, dec_h) \<Longrightarrow>
   move_window x y w h wld =
     (if card32 (x + dec_w div 2) \<and> card32 (y + dec_h - dec_w div 2)
         \<and> card32 (w - dec_w) \<and> card32 (h - dec_h)
      then Inr (wld\<lparr>requests := requests wld @
                  [SetWmState 0 MAXIMIZED_HORZ, SetWmState 0 MAXIMIZED_VERT,
                   SetMoveResizeWindow (x + dec_w div 2) (y + dec_h - dec_w div 2)
                     (w - dec_w) (h - dec_h),
                   Flush]\<rparr>)
      else Inl OverflowError)"
  by (simp add: move_window_def setMoveResizeWindow_def get_decoration_dimensions_def
        get_geometry_def send_request_def Let_def split: sum.splits)

lemma example_insets:
  "get_decoration_dimensions (example_world frame) = Inr (10, 30)"
  by (simp add: get_decoration_dimensions_def get_geometry_def example_world_def)

text \<open>
  Claim C7 as stated fails where a final value is negative. For the target
  \<open>(0, 0, 5, 20)\<close> and the insets \<open>(10, 30)\<close> the final width is \<open>- 5\<close> and the final
  height \<open>- 10\<close>; the request raises \<^verbatim>\<open>OverflowError\<close> and no move is issued.
\<close>

theorem move_window_negative_counterexample:
  "get_decoration_dimensions
       (example_world \<lparr>rect_x = 0, rect_y = 0, rect_width = 960, rect_height = 1080\<rparr>)
     = Inr (10, 30)
   \<and> move_window 0 0 5 20
         (example_world \<lparr>rect_x = 0, rect_y = 0, rect_width = 960, rect_height = 1080\<rparr>)
       = Inl OverflowError
   \<and> \<not> (\<exists>wld'. move_window 0 0 5 20
                    (example_world
                       \<lparr>rect_x = 0, rect_y = 0, rect_width = 960, rect_height = 1080\<rparr>)
                  = Inr wld'
                \<and> SetMoveResizeWindow 5 25 (- 5) (- 10) \<in> set (requests wld'))"
proof -
  let ?w = "example_world \<lparr>rect_x = 0, rect_y = 0, rect_width = 960, rect_height = 1080\<rparr>"
  have d: "get_decoration_dimensions ?w = Inr (10, 30)"
    by (rule example_insets)
  from move_window_requests [OF d, of 0 0 5 20]
  have m: "move_window 0 0 5 20 ?w = Inl OverflowError"
    by (simp add: card32_def)
  from d m show ?thesis by simp
qed

text \<open>
  Claim C7, amended. The insets are the parent's dimensions minus the window's. With
  insets \<open>(iw, ih)\<close> the values handed to the move request for the target
  \<open>(x, y, w, h)\<close> are \<open>(x + iw div 2, y + ih - iw div 2, w - iw, h - ih)\<close>, in exact
  integer arithmetic and unclamped. When each of them lies in \<open>0 .. 2 ^ 32 - 1\<close> (a width
  or height of 0 included) that one move is issued and flushed; otherwise the request
  raises \<^verbatim>\<open>OverflowError\<close> and no move is issued.
\<close>

theorem move_window_insets:
  "(geometry wld = Inr g \<longrightarrow>
      get_decoration_dimensions wld =
        Inr (rect_width (parent g) - rect_width (window g),
             rect_height (parent g) - rect_height (window g)))
   \<and> (get_decoration_dimensions wld = Inr (iw, ih) \<longrightarrow>
      move_window x y w h wld =
        (if card32 (x + iw div 2) \<and> card32 (y + ih - iw div 2)
            \<and> card32 (w - iw) \<and> card32 (h - ih)
         then Inr (wld\<lparr>requests := requests wld @
                     [SetWmState 0 MAXIMIZED_HORZ, SetWmState 0 MAXIMIZED_VERT,
                      SetMoveResizeWindow (x + iw div 2) (y + ih - iw div 2)
                        (w - iw) (h - ih),
                      Flush]\<rparr>)
         else Inl OverflowError))"
  using move_window_requests [of wld iw ih x y w h]
  by (simp add: get_decoration_dimensions_def get_geometry_def)

theorem move_window_insets_witness:
  "get_decoration_dimensions
       (example_world \<lparr>rect_x = 0, rect_y = 0, rect_width = 960, rect_height = 1080\<rparr>)
     = Inr (10, 30)
   \<and> move_window 0 0 10 30
         (example_world \<lparr>rect_x = 0, rect_y = 0, rect_width = 960, rect_height = 1080\<rparr>)
       = Inr ((example_world \<lparr>rect_x = 0, rect_y = 0, rect_width = 960, rect_height = 1080\<rparr>)
              \<lparr>requests :=
                 [SetWmState 0 MAXIMIZED_HORZ, SetWmState 0 MAXIMIZED_VERT,
                  SetMoveResizeWindow 5 25 0 0, Flush]\<rparr>)
   \<and> move_window 0 0 9 30
         (example_world \<lparr>rect_x = 0, rect_y = 0, rect_width = 960, rect_height = 1080\<rparr>)
       = Inl OverflowError"
proof -
  let ?frame = "\<lparr>rect_x = 0, rect_y = 0, rect_width = 960, rect_height = 1080\<rparr>"
  let ?g = "\<lparr>window = \<lparr>rect_x = 5, rect_y = 25, rect_width = 950, rect_height = 1050\<rparr>,
             parent = ?frame\<rparr>"
  have g: "geometry (example_world ?frame) = Inr ?g"
    by (simp add: example_world_def)
  have r: "requests (example_world ?frame) = []"
    by (simp add: example_world_def)
  from move_window_insets [of "example_world ?frame" ?g 10 30 0 0 10 30] g
  have d: "get_decoration_dimensions (example_world ?frame) = Inr (10, 30)"
    by simp
  from move_window_insets [of "example_world ?frame" ?g 10 30 0 0 10 30] d r
  have a: "move_window 0 0 10 30 (example_world ?frame)
       = Inr ((example_world ?frame)
              \<lparr>requests :=
                 [SetWmState 0 MAXIMIZED_HORZ, SetWmState 0 MAXIMIZED_VERT,
                  SetMoveResizeWindow 5 25 0 0, Flush]\<rparr>)"
    by (simp add: card32_def)
  from move_window_insets [of "example_world ?frame" ?g 10 30 0 0 9 30] d
  have b: "move_window 0 0 9 30 (example_world ?frame) = Inl OverflowError"
    by (simp add: card32_def)
  from d a b show ?thesis by simp
qed

section \<open>Classifying the focused window\<close>

lemma stateinfo_Screen_init:
  "stateinfo (Screen_init x y w h) = map Inr (positions x y w h)"
  by (simp add: stateinfo_def Screen_init_simps positions_def)

lemma get_windowstate_loop_find:
  "get_windowstate_loop win (map Inr xs) =
     Inr (map_option fst (find (\<lambda>(state, anchor, sz). win = (anchor, sz)) xs))"
  by (induction xs) auto

lemma get_windowstate_loop_None:
  "get_windowstate_loop win (map Inr xs) = Inr None \<longleftrightarrow> win \<notin> set (map snd xs)"
proof (induction xs)
  case Nil
  then show ?case by simp
next
  case (Cons p ps)
  obtain s a z where p: "p = (s, a, z)" by (cases p)
  with Cons show ?case by (cases "win = (a, z)") auto
qed

lemma get_windowstate_loop_mem:
  "get_windowstate_loop win (map Inr xs) = Inr (Some state) \<Longrightarrow> (state, win) \<in> set xs"
  by (induction xs) (auto split: if_splits)

lemma get_windowstate_loop_unique:
  "distinct (map snd xs) \<Longrightarrow> (state, win) \<in> set xs \<Longrightarrow>
   get_windowstate_loop win (map Inr xs) = Inr (Some state)"
proof (induction xs)
  case Nil
  then show ?case by simp
next
  case (Cons p ps)
  obtain s a z where p: "p = (s, a, z)" by (cases p)
  show ?case
  proof (cases "win = (a, z)")
    case True
    with Cons.prems p have "state = s" by (force simp: image_iff)
    with True p show ?thesis by simp
  next
    case False
    with Cons p show ?thesis by auto
  qed
qed

lemma positions_distinct:
  assumes "3 < w" and "3 < h"
  shows "distinct (map snd (positions x y w h))"
proof -
  from assms have "0 < w div 2" "w div 2 < w" "0 < h div 2" "h div 2 < h" by simp_all
  then show ?thesis by (simp add: positions_def)
qed

lemma get_screen_Inr:
  "get_active_monitor wld = Inr m \<Longrightarrow>
   get_screen wld = Inr (Screen_init (rect_x m) (rect_y m) (rect_width m) (rect_height m))"
  by (simp add: get_screen_def)

lemma get_windowstate_eq:
  "get_active_monitor wld = Inr m \<Longrightarrow> geometry wld = Inr g \<Longrightarrow>
   get_windowstate wld =
     get_windowstate_loop
       ((rect_x (parent g), rect_y (parent g)), (rect_width (parent g), rect_height (parent g)))
       (stateinfo (Screen_init (rect_x m) (rect_y m) (rect_width m) (rect_height m)))"
  by (simp add: get_windowstate_def get_screen_Inr get_geometry_def)

text \<open>
  Claim C3. \<^verbatim>\<open>get_windowstate\<close> runs its loop on the frame of the focused window and
  the screen of the active monitor. On a screen built by \<open>Screen_init\<close>, \<open>stateinfo\<close> yields the
  specification's enumeration: LEFT, RIGHT, UP, DOWN, then the four corners (eight
  pairs; the ninth position, \<^verbatim>\<open>None\<close>, has no rectangle). The loop of
  \<^verbatim>\<open>get_windowstate\<close> returns the first position whose anchor and size are equal, as
  integers, to the window's; it returns \<^verbatim>\<open>None\<close> exactly when no pair is equal; and when
  \<open>w > 3\<close> and \<open>h > 3\<close> the pairs are pairwise different, so the position returned is
  the only one that matches.
\<close>

theorem get_windowstate_exact_match:
  "stateinfo (Screen_init x y w h) = map Inr (positions x y w h)
   \<and> get_windowstate_loop win (stateinfo (Screen_init x y w h)) =
       Inr (map_option fst
              (find (\<lambda>(state, anchor, sz). win = (anchor, sz)) (positions x y w h)))
   \<and> (get_windowstate_loop win (stateinfo (Screen_init x y w h)) = Inr None
        \<longleftrightarrow> win \<notin> set (map snd (positions x y w h)))
   \<and> (get_active_monitor wld = Inr m \<and> geometry wld = Inr g \<longrightarrow>
        get_windowstate wld =
          get_windowstate_loop
            ((rect_x (parent g), rect_y (parent g)),
             (rect_width (parent g), rect_height (parent g)))
            (stateinfo (Screen_init (rect_x m) (rect_y m) (rect_width m) (rect_height m))))
   \<and> (3 < w \<and> 3 < h \<longrightarrow>
        distinct (map snd (positions x y w h))
        \<and> (\<forall>state. get_windowstate_loop win (stateinfo (Screen_init x y w h))
                       = Inr (Some state)
                     \<longleftrightarrow> (state, win) \<in> set (positions x y w h)))"
proof -
  have a: "get_active_monitor wld = Inr m \<and> geometry wld = Inr g \<longrightarrow>
        get_windowstate wld =
          get_windowstate_loop
            ((rect_x (parent g), rect_y (parent g)),
             (rect_width (parent g), rect_height (parent g)))
            (stateinfo (Screen_init (rect_x m) (rect_y m) (rect_width m) (rect_height m)))"
    using get_windowstate_eq by blast
  have b: "3 < w \<and> 3 < h \<longrightarrow>
        distinct (map snd (positions x y w h))
        \<and> (\<forall>state. get_windowstate_loop win (stateinfo (Screen_init x y w h))
                       = Inr (Some state)
                     \<longleftrightarrow> (state, win) \<in> set (positions x y w h))"
    unfolding stateinfo_Screen_init
    using get_windowstate_loop_mem get_windowstate_loop_unique positions_distinct
    by blast
  have c: "stateinfo (Screen_init x y w h) = map Inr (positions x y w h)"
    by (rule stateinfo_Screen_init)
  have d: "get_windowstate_loop win (stateinfo (Screen_init x y w h)) =
       Inr (map_option fst
              (find (\<lambda>(state, anchor, sz). win = (anchor, sz)) (positions x y w h)))"
    unfolding c by (rule get_windowstate_loop_find)
  have e: "get_windowstate_loop win (stateinfo (Screen_init x y w h)) = Inr None
        \<longleftrightarrow> win \<notin> set (map snd (positions x y w h))"
    unfolding c by (rule get_windowstate_loop_None)
  from a b c d e show ?thesis by blast
qed


section \<open>Facts about the queries and the moves\<close>

lemma debug_simps:
  "geometry (debug line wld) = geometry wld"
  "monitors (debug line wld) = monitors wld"
  "requests (debug line wld) = requests wld"
  by (simp_all add: debug_def print_line_def)

lemma get_active_monitor_debug:
  "get_active_monitor (debug line wld) = get_active_monitor wld"
  by (simp add: get_active_monitor_def get_geometry_def get_monitors_def debug_simps
        split: sum.splits)

lemma get_screen_debug: "get_screen (debug line wld) = get_screen wld"
  by (simp add: get_screen_def get_active_monitor_debug)

lemma get_windowstate_Inr:
  assumes "get_windowstate wld = Inr current"
  shows "\<exists>m g. get_active_monitor wld = Inr m \<and> geometry wld = Inr g"
  using assms
  by (auto simp: get_windowstate_def get_screen_def get_geometry_def split: sum.splits)

lemma get_windowstate_corner:
  assumes "get_windowstate wld = Inr (Some (OfCorner c))"
  shows "is_corner c"
proof -
  from get_windowstate_Inr [OF assms] obtain m g
    where m: "get_active_monitor wld = Inr m" and g: "geometry wld = Inr g" by blast
  from assms get_windowstate_eq [OF m g] stateinfo_Screen_init
  have "\<exists>win x y w h. get_windowstate_loop win (map Inr (positions x y w h))
          = Inr (Some (OfCorner c))"
    by metis
  then obtain win x y w h where "(OfCorner c, win) \<in> set (positions x y w h)"
    using get_windowstate_loop_mem by blast
  then show ?thesis
    by (auto simp: positions_def is_corner_iff)
qed

lemma move_window_outcome:
  "geometry wld = Inr g \<Longrightarrow>
   (\<exists>wld'. move_window x y w h wld = Inr wld'
           \<and> length (requests wld') = length (requests wld) + 4)
   \<or> move_window x y w h wld = Inl OverflowError"
  by (simp add: move_window_def setMoveResizeWindow_def get_decoration_dimensions_def
        get_geometry_def send_request_def Let_def)

lemma move_window_length:
  "move_window x y w h wld = Inr wld' \<Longrightarrow>
   length (requests wld') = length (requests wld) + 4"
  by (auto simp: move_window_def setMoveResizeWindow_def get_decoration_dimensions_def
        get_geometry_def send_request_def Let_def split: sum.splits if_splits)

lemma move_length:
  "move d wld = Inr wld' \<Longrightarrow> length (requests wld') = length (requests wld) + 4"
  by (auto simp: move_def Let_def debug_simps dest!: move_window_length
        split: sum.splits option.splits)

lemma maximise_length:
  "maximise wld = Inr wld' \<Longrightarrow> length (requests wld') = length (requests wld) + 4"
  by (auto simp: maximise_def Let_def debug_simps dest!: move_window_length
        split: sum.splits)

lemma cornermove_length:
  "cornermove c wld = Inr wld' \<Longrightarrow> length (requests wld') = length (requests wld) + 4"
  by (auto simp: cornermove_def Let_def debug_simps dest!: move_window_length
        split: sum.splits option.splits prod.splits)

lemma move_outcome:
  assumes "get_active_monitor wld = Inr m" and "geometry wld = Inr g"
  shows "(\<exists>wld'. move d wld = Inr wld') \<or> move d wld = Inl OverflowError"
proof -
  from assms(2) have "geometry (debug (DebugMove d) wld) = Inr g"
    by (simp add: debug_simps)
  from move_window_outcome [OF this]
  have mw: "\<And>x y w h. (\<exists>wld'. move_window x y w h (debug (DebugMove d) wld) = Inr wld')
      \<or> move_window x y w h (debug (DebugMove d) wld) = Inl OverflowError"
    by blast
  from assms(1) mw show ?thesis
    by (cases d) (simp_all add: move_def Let_def get_screen_debug get_screen_Inr
        Screen_init_simps)
qed

lemma maximise_eq:
  assumes "get_active_monitor wld = Inr m"
  shows "maximise wld =
     move_window (rect_x m) (rect_y m) (rect_width m) (rect_height m)
       (debug DebugMaximise wld)"
  using assms
  by (simp add: maximise_def Let_def get_screen_debug get_screen_Inr Screen_init_simps)

lemma maximise_outcome:
  assumes "get_active_monitor wld = Inr m" and "geometry wld = Inr g"
  shows "(\<exists>wld'. maximise wld = Inr wld') \<or> maximise wld = Inl OverflowError"
proof -
  from assms(2) have "geometry (debug DebugMaximise wld) = Inr g"
    by (simp add: debug_simps)
  from move_window_outcome [OF this] maximise_eq [OF assms(1)] show ?thesis
    by metis
qed

lemma cornermove_outcome:
  assumes "get_active_monitor wld = Inr m" and "geometry wld = Inr g" and "is_corner c"
  shows "(\<exists>wld'. cornermove c wld = Inr wld') \<or> cornermove c wld = Inl OverflowError"
proof -
  from assms(2) have "geometry (debug (DebugSubmove c) wld) = Inr g"
    by (simp add: debug_simps)
  from move_window_outcome [OF this]
  have mw: "\<And>x y w h. (\<exists>wld'. move_window x y w h (debug (DebugSubmove c) wld) = Inr wld')
      \<or> move_window x y w h (debug (DebugSubmove c) wld) = Inl OverflowError"
    by blast
  from assms(3) have "c \<in> {(DOWN, LEFT), (DOWN, RIGHT), (LEFT, UP), (RIGHT, UP)}"
    by (simp add: is_corner_iff)
  then have "\<exists>x y. map_of (corneranchors (Screen_init (rect_x m) (rect_y m)
      (rect_width m) (rect_height m))) c = Some (x, y)"
    by (auto simp: Screen_init_simps)
  then obtain x y where "map_of (corneranchors (Screen_init (rect_x m) (rect_y m)
      (rect_width m) (rect_height m))) c = Some (x, y)" by blast
  with assms(1) mw show ?thesis
    by (simp add: cornermove_def Let_def get_screen_debug get_screen_Inr
        Screen_init_simps(8))
qed

section \<open>The transition engine\<close>

lemma move_command_None:
  "get_windowstate wld = Inr None \<Longrightarrow> move_command d wld = move d wld"
  by (simp add: move_command_def)

lemma move_command_same:
  "get_windowstate wld = Inr (Some (OfDirection d)) \<Longrightarrow> move_command d wld = Inr wld"
  by (simp add: move_command_def)

lemma opposites_neq: "opposites d \<noteq> d"
  by (cases d) simp_all

lemma move_command_opposite:
  "get_windowstate wld = Inr (Some (OfDirection (opposites d))) \<Longrightarrow>
   move_command d wld = maximise wld"
  by (simp add: move_command_def opposites_neq)

lemma move_command_half:
  "get_windowstate wld = Inr (Some (OfDirection h)) \<Longrightarrow> h \<noteq> d \<Longrightarrow> h \<noteq> opposites d \<Longrightarrow>
   move_command d wld = cornermove (corner h d) wld"
  by (simp add: move_command_def)

lemma move_command_corner:
  "get_windowstate wld = Inr (Some (OfCorner c)) \<Longrightarrow> map_of cornerstates c = Some directions \<Longrightarrow>
   move_command d wld =
     move (case map_of directions d of None \<Rightarrow> d | Some move_direction \<Rightarrow> move_direction) wld"
  by (simp add: move_command_def)

lemma cornerstates_lookup:
  "map_of cornerstates (corner LEFT UP) = Some [(DOWN, LEFT), (RIGHT, UP)]"
  "map_of cornerstates (corner RIGHT UP) = Some [(DOWN, RIGHT), (LEFT, UP)]"
  "map_of cornerstates (corner DOWN LEFT) = Some [(UP, LEFT), (RIGHT, DOWN)]"
  "map_of cornerstates (corner DOWN RIGHT) = Some [(UP, RIGHT), (LEFT, DOWN)]"
  by (simp_all add: cornerstates_eq corner_values)

lemma move_command_outcome:
  assumes "get_windowstate wld = Inr current"
  shows "(\<exists>wld'. move_command d wld = Inr wld') \<or> move_command d wld = Inl OverflowError"
proof -
  from get_windowstate_Inr [OF assms] obtain m g
    where m: "get_active_monitor wld = Inr m" and g: "geometry wld = Inr g" by blast
  show ?thesis
  proof (cases current)
    case None
    with assms move_command_None move_outcome [OF m g] show ?thesis by simp
  next
    case (Some ws)
    show ?thesis
    proof (cases ws)
      case (OfDirection h)
      consider "h = d" | "h = opposites d" | "h \<noteq> d" "h \<noteq> opposites d" by blast
      then show ?thesis
      proof cases
        case 1
        with assms Some OfDirection show ?thesis by (simp add: move_command_same)
      next
        case 2
        with assms Some OfDirection maximise_outcome [OF m g] show ?thesis
          by (simp add: move_command_opposite)
      next
        case 3
        with assms Some OfDirection have "move_command d wld = cornermove (corner h d) wld"
          by (simp add: move_command_half)
        with cornermove_outcome [OF m g corner_is_corner [OF 3]] show ?thesis by simp
      qed
    next
      case (OfCorner c)
      with assms Some have ws: "get_windowstate wld = Inr (Some (OfCorner c))" by simp
      from get_windowstate_corner [OF ws]
      have "\<exists>directions. map_of cornerstates c = Some directions"
        by (auto simp: is_corner_iff cornerstates_eq)
      then obtain directions where "map_of cornerstates c = Some directions" by blast
      from move_command_corner [OF ws this] move_outcome [OF m g] show ?thesis by simp
    qed
  qed
qed

lemma move_command_dispatch:
  assumes "get_windowstate wld = Inr current"
  shows "move_command d wld = Inr wld
   \<or> (\<exists>m. move_command d wld = move m wld)
   \<or> move_command d wld = maximise wld
   \<or> (\<exists>c. is_corner c \<and> move_command d wld = cornermove c wld)"
proof (cases current)
  case None
  with assms move_command_None show ?thesis by blast
next
  case (Some ws)
  show ?thesis
  proof (cases ws)
    case (OfDirection h)
    consider "h = d" | "h = opposites d" | "h \<noteq> d" "h \<noteq> opposites d" by blast
    then show ?thesis
    proof cases
      case 1
      with assms Some OfDirection show ?thesis by (simp add: move_command_same)
    next
      case 2
      with assms Some OfDirection show ?thesis by (simp add: move_command_opposite)
    next
      case 3
      with assms Some OfDirection have "move_command d wld = cornermove (corner h d) wld"
        by (simp add: move_command_half)
      with corner_is_corner [OF 3] show ?thesis by blast
    qed
  next
    case (OfCorner c)
    with assms Some have ws: "get_windowstate wld = Inr (Some (OfCorner c))" by simp
    from get_windowstate_corner [OF ws]
    have "\<exists>directions. map_of cornerstates c = Some directions"
      by (auto simp: is_corner_iff cornerstates_eq)
    then obtain directions where "map_of cornerstates c = Some directions" by blast
    from move_command_corner [OF ws this] show ?thesis by blast
  qed
qed

text \<open>
  Claim C1. Whenever the classification succeeds, \<^verbatim>\<open>move_command\<close> with the requested
  direction \<open>d\<close> does what the rules say: untiled, it moves to the half \<open>d\<close>; tiled
  to \<open>d\<close>, it does nothing; tiled to the opposite of \<open>d\<close>, it maximises; tiled to a
  corner, which is always one of the four keys of the table, it moves to the half the
  table gives (\<open>d\<close> itself when \<open>d\<close> is not a key of that corner's map); tiled to any
  other half \<open>h\<close>, it moves to the quarter \<open>corner h d\<close>. The decision is total on the
  nine positions and four directions: the call is always the no-op or one of
  \<^verbatim>\<open>move\<close>, \<^verbatim>\<open>maximise\<close> and \<^verbatim>\<open>cornermove\<close> on a corner, and the dispatch itself never
  raises. The call returns unless the move request of the display raises
  \<^verbatim>\<open>OverflowError\<close> for a value outside its 32-bit field.
\<close>

theorem move_command_transitions:
  assumes "get_windowstate wld = Inr current"
  shows "(current = None \<longrightarrow> move_command d wld = move d wld)
   \<and> (current = Some (OfDirection d) \<longrightarrow> move_command d wld = Inr wld)
   \<and> (current = Some (OfDirection (opposites d)) \<longrightarrow> move_command d wld = maximise wld)
   \<and> (current = Some (OfCorner (corner LEFT UP)) \<longrightarrow>
        move_command d wld = move (case d of DOWN \<Rightarrow> LEFT | RIGHT \<Rightarrow> UP | _ \<Rightarrow> d) wld)
   \<and> (current = Some (OfCorner (corner RIGHT UP)) \<longrightarrow>
        move_command d wld = move (case d of DOWN \<Rightarrow> RIGHT | LEFT \<Rightarrow> UP | _ \<Rightarrow> d) wld)
   \<and> (current = Some (OfCorner (corner DOWN LEFT)) \<longrightarrow>
        move_command d wld = move (case d of UP \<Rightarrow> LEFT | RIGHT \<Rightarrow> DOWN | _ \<Rightarrow> d) wld)
   \<and> (current = Some (OfCorner (corner DOWN RIGHT)) \<longrightarrow>
        move_command d wld = move (case d of UP \<Rightarrow> RIGHT | LEFT \<Rightarrow> DOWN | _ \<Rightarrow> d) wld)
   \<and> (\<forall>c. current = Some (OfCorner c) \<longrightarrow>
        c \<in> {corner LEFT UP, corner RIGHT UP, corner DOWN LEFT, corner DOWN RIGHT})
   \<and> (\<forall>h. current = Some (OfDirection h) \<and> h \<noteq> d \<and> h \<noteq> opposites d \<longrightarrow>
        move_command d wld = cornermove (corner h d) wld)
   \<and> (move_command d wld = Inr wld
        \<or> (\<exists>m. move_command d wld = move m wld)
        \<or> move_command d wld = maximise wld
        \<or> (\<exists>c. is_corner c \<and> move_command d wld = cornermove c wld))
   \<and> ((\<exists>wld'. move_command d wld = Inr wld')
        \<or> move_command d wld = Inl OverflowError)"
proof -
  have r1: "current = None \<longrightarrow> move_command d wld = move d wld"
    using assms move_command_None by simp
  have r2: "current = Some (OfDirection d) \<longrightarrow> move_command d wld = Inr wld"
    using assms move_command_same by simp
  have r3: "current = Some (OfDirection (opposites d)) \<longrightarrow> move_command d wld = maximise wld"
    using assms move_command_opposite by simp
  have r4: "current = Some (OfCorner (corner LEFT UP)) \<longrightarrow>
        move_command d wld = move (case d of DOWN \<Rightarrow> LEFT | RIGHT \<Rightarrow> UP | _ \<Rightarrow> d) wld"
    using assms move_command_corner [OF _ cornerstates_lookup(1), of wld d]
    by (cases d) simp_all
  have r5: "current = Some (OfCorner (corner RIGHT UP)) \<longrightarrow>
        move_command d wld = move (case d of DOWN \<Rightarrow> RIGHT | LEFT \<Rightarrow> UP | _ \<Rightarrow> d) wld"
    using assms move_command_corner [OF _ cornerstates_lookup(2), of wld d]
    by (cases d) simp_all
  have r6: "current = Some (OfCorner (corner DOWN LEFT)) \<longrightarrow>
        move_command d wld = move (case d of UP \<Rightarrow> LEFT | RIGHT \<Rightarrow> DOWN | _ \<Rightarrow> d) wld"
    using assms move_command_corner [OF _ cornerstates_lookup(3), of wld d]
    by (cases d) simp_all
  have r7: "current = Some (OfCorner (corner DOWN RIGHT)) \<longrightarrow>
        move_command d wld = move (case d of UP \<Rightarrow> RIGHT | LEFT \<Rightarrow> DOWN | _ \<Rightarrow> d) wld"
    using assms move_command_corner [OF _ cornerstates_lookup(4), of wld d]
    by (cases d) simp_all
  have r8: "\<forall>c. current = Some (OfCorner c) \<longrightarrow>
        c \<in> {corner LEFT UP, corner RIGHT UP, corner DOWN LEFT, corner DOWN RIGHT}"
    using assms get_windowstate_corner by (auto simp: is_corner_iff corner_values)
  have r9: "\<forall>h. current = Some (OfDirection h) \<and> h \<noteq> d \<and> h \<noteq> opposites d \<longrightarrow>
        move_command d wld = cornermove (corner h d) wld"
    using assms move_command_half by simp
  have r10: "move_command d wld = Inr wld
        \<or> (\<exists>m. move_command d wld = move m wld)
        \<or> move_command d wld = maximise wld
        \<or> (\<exists>c. is_corner c \<and> move_command d wld = cornermove c wld)"
    using assms by (rule move_command_dispatch)
  have r11: "(\<exists>wld'. move_command d wld = Inr wld')
        \<or> move_command d wld = Inl OverflowError"
    using assms by (rule move_command_outcome)
  from r1 r2 r3 r4 r5 r6 r7 r8 r9 r10 r11 show ?thesis by blast
qed


text \<open>The example world is classified by the frame of its window.\<close>

lemma example_monitor_active:
  "get_active_monitor (example_world frame) = Inr example_monitor"
  by (simp add: get_active_monitor_def get_geometry_def get_monitors_def example_world_def)

lemma example_windowstate:
  "get_windowstate (example_world frame) =
     get_windowstate_loop
       ((rect_x frame, rect_y frame), (rect_width frame, rect_height frame))
       (map Inr (positions 0 0 1920 1080))"
proof -
  have g: "geometry (example_world frame) =
      Inr \<lparr>window = \<lparr>rect_x = 5, rect_y = 25, rect_width = rect_width frame - 10,
                       rect_height = rect_height frame - 30\<rparr>, parent = frame\<rparr>"
    by (simp add: example_world_def)
  from get_windowstate_eq [OF example_monitor_active g] show ?thesis
    by (simp add: stateinfo_Screen_init example_monitor_def)
qed

lemma example_tiled:
  "get_windowstate
     (example_world \<lparr>rect_x = 0, rect_y = 0, rect_width = 960, rect_height = 1080\<rparr>)
   = Inr (Some (OfDirection LEFT))"
  "get_windowstate
     (example_world \<lparr>rect_x = 0, rect_y = 0, rect_width = 961, rect_height = 1080\<rparr>)
   = Inr None"
  "get_windowstate
     (example_world \<lparr>rect_x = 0, rect_y = 0, rect_width = 960, rect_height = 540\<rparr>)
   = Inr (Some (OfCorner (LEFT, UP)))"
  by (simp_all add: example_windowstate positions_def)

text \<open>
  Where the insets put a final value below 0 the call does not return: with decorations
  10 wide and 2 high, the half UP of a screen at the origin gets the final
  \<open>y = 0 + 2 - 5\<close>, and the move request raises.
\<close>

lemma move_command_overflow_example:
  "get_windowstate thin_title_world = Inr None
   \<and> move_command UP thin_title_world = Inl OverflowError"
proof -
  have m: "get_active_monitor thin_title_world = Inr example_monitor"
    by (simp add: get_active_monitor_def get_geometry_def get_monitors_def
        thin_title_world_def)
  have g: "geometry thin_title_world =
      Inr \<lparr>window = \<lparr>rect_x = 5, rect_y = 2, rect_width = 790, rect_height = 598\<rparr>,
           parent = \<lparr>rect_x = 100, rect_y = 100, rect_width = 800, rect_height = 600\<rparr>\<rparr>"
    by (simp add: thin_title_world_def)
  from get_windowstate_eq [OF m g]
  have ws: "get_windowstate thin_title_world = Inr None"
    by (simp add: stateinfo_Screen_init example_monitor_def positions_def)
  have v: "verbose thin_title_world = False"
    by (simp add: thin_title_world_def)
  have d: "get_decoration_dimensions thin_title_world = Inr (10, 2)"
    using g by (simp add: get_decoration_dimensions_def get_geometry_def)
  have "move UP thin_title_world = move_window 0 0 1920 540 thin_title_world"
    using m v
    by (simp add: move_def Let_def debug_def get_screen_Inr Screen_init_simps
        example_monitor_def)
  also have "\<dots> = Inl OverflowError"
    using move_window_requests [OF d, of 0 0 1920 540] by (simp add: card32_def)
  finally show ?thesis
    using ws by (simp add: move_command_None)
qed

theorem move_command_transitions_witness:
  "get_windowstate
     (example_world \<lparr>rect_x = 0, rect_y = 0, rect_width = 960, rect_height = 1080\<rparr>)
     = Inr (Some (OfDirection LEFT))
   \<and> LEFT \<noteq> UP \<and> LEFT \<noteq> opposites UP
   \<and> move_command UP
        (example_world \<lparr>rect_x = 0, rect_y = 0, rect_width = 960, rect_height = 1080\<rparr>)
     = cornermove (corner LEFT UP)
        (example_world \<lparr>rect_x = 0, rect_y = 0, rect_width = 960, rect_height = 1080\<rparr>)"
  using move_command_transitions [OF example_tiled(1), of UP]
  by (simp add: example_tiled(1))

theorem get_windowstate_exact_match_witness:
  "(3::int) < 1920 \<and> (3::int) < 1080
   \<and> get_windowstate_loop ((0, 0), (960, 1080)) (stateinfo (Screen_init 0 0 1920 1080))
       = Inr (Some (OfDirection LEFT))
   \<and> get_windowstate_loop ((0, 0), (961, 1080)) (stateinfo (Screen_init 0 0 1920 1080))
       = Inr None"
proof -
  have m: "(OfDirection LEFT, (0, 0), (960, 1080)) \<in> set (positions 0 0 1920 1080)"
    by (simp add: positions_def)
  have n: "((0, 0), (961, 1080)) \<notin> set (map snd (positions 0 0 1920 1080))"
    by (simp add: positions_def)
  have h: "(3::int) < 1920 \<and> (3::int) < 1080" by simp
  from get_windowstate_exact_match [of 0 0 1920 1080 "((0, 0), (960, 1080))"] h m
  have a: "get_windowstate_loop ((0, 0), (960, 1080)) (stateinfo (Screen_init 0 0 1920 1080))
       = Inr (Some (OfDirection LEFT))"
    by blast
  from get_windowstate_exact_match [of 0 0 1920 1080 "((0, 0), (961, 1080))"] n
  have b: "get_windowstate_loop ((0, 0), (961, 1080)) (stateinfo (Screen_init 0 0 1920 1080))
       = Inr None"
    by blast
  from h a b show ?thesis by blast
qed

text \<open>
  Claim C5. With the window tiled to the requested direction, \<^verbatim>\<open>move_command\<close> returns
  the world as it was: no request is sent and nothing is printed. It is the only case: a
  call that returns without a new request had the window tiled to the requested
  direction, and from every other position the call either sends the four requests of
  one move or ends with the \<^verbatim>\<open>OverflowError\<close> of the move request.
\<close>

theorem move_command_noop:
  "(get_windowstate wld = Inr (Some (OfDirection d)) \<longrightarrow> move_command d wld = Inr wld)
   \<and> (\<forall>wld'. move_command d wld = Inr wld' \<and> requests wld' = requests wld \<longrightarrow>
         get_windowstate wld = Inr (Some (OfDirection d)))
   \<and> (\<forall>current. get_windowstate wld = Inr current \<and> current \<noteq> Some (OfDirection d) \<longrightarrow>
         (\<exists>wld'. move_command d wld = Inr wld'
                 \<and> length (requests wld') = length (requests wld) + 4)
         \<or> move_command d wld = Inl OverflowError)"
proof -
  have moved: "length (requests wld') = length (requests wld) + 4"
    if ws: "get_windowstate wld = Inr current" and ne: "current \<noteq> Some (OfDirection d)"
      and mc: "move_command d wld = Inr wld'" for current wld'
  proof (cases current)
    case None
    with ws mc have "move d wld = Inr wld'" by (simp add: move_command_None)
    then show ?thesis by (rule move_length)
  next
    case (Some st)
    show ?thesis
    proof (cases st)
      case (OfDirection h)
      with ne Some have hd: "h \<noteq> d" by simp
      show ?thesis
      proof (cases "h = opposites d")
        case True
        with ws mc Some OfDirection have "maximise wld = Inr wld'"
          by (simp add: move_command_opposite)
        then show ?thesis by (rule maximise_length)
      next
        case False
        with ws mc Some OfDirection hd have "cornermove (corner h d) wld = Inr wld'"
          by (simp add: move_command_half)
        then show ?thesis by (rule cornermove_length)
      qed
    next
      case (OfCorner c)
      with ws mc Some show ?thesis
        by (auto simp: move_command_def dest: move_length split: option.splits)
    qed
  qed
  have a: "get_windowstate wld = Inr (Some (OfDirection d)) \<longrightarrow> move_command d wld = Inr wld"
    by (simp add: move_command_same)
  have b: "\<forall>wld'. move_command d wld = Inr wld' \<and> requests wld' = requests wld \<longrightarrow>
         get_windowstate wld = Inr (Some (OfDirection d))"
  proof (intro allI impI)
    fix wld'
    assume h: "move_command d wld = Inr wld' \<and> requests wld' = requests wld"
    then obtain current where ws: "get_windowstate wld = Inr current"
      by (cases "get_windowstate wld") (simp_all add: move_command_def)
    show "get_windowstate wld = Inr (Some (OfDirection d))"
    proof (rule ccontr)
      assume "get_windowstate wld \<noteq> Inr (Some (OfDirection d))"
      with ws have "current \<noteq> Some (OfDirection d)" by simp
      from moved [OF ws this] h show False by simp
    qed
  qed
  have c: "\<forall>current. get_windowstate wld = Inr current \<and> current \<noteq> Some (OfDirection d) \<longrightarrow>
         (\<exists>wld'. move_command d wld = Inr wld'
                 \<and> length (requests wld') = length (requests wld) + 4)
         \<or> move_command d wld = Inl OverflowError"
    using moved move_command_outcome by blast
  from a b c show ?thesis by blast
qed

theorem move_command_noop_witness:
  "get_windowstate
     (example_world \<lparr>rect_x = 0, rect_y = 0, rect_width = 960, rect_height = 1080\<rparr>)
     = Inr (Some (OfDirection LEFT))
   \<and> move_command LEFT
        (example_world \<lparr>rect_x = 0, rect_y = 0, rect_width = 960, rect_height = 1080\<rparr>)
     = Inr (example_world \<lparr>rect_x = 0, rect_y = 0, rect_width = 960, rect_height = 1080\<rparr>)"
  using move_command_noop
    [of "example_world \<lparr>rect_x = 0, rect_y = 0, rect_width = 960, rect_height = 1080\<rparr>" LEFT]
  by (simp add: example_tiled(1))


text \<open>
  Claim C6 (mirror law). With the window tiled to the opposite of the requested
  direction, \<^verbatim>\<open>move_command\<close> is \<^verbatim>\<open>maximise\<close>, the move to the whole rectangle of the
  screen, that of the active monitor. With the insets \<open>(iw, ih)\<close> of the window that
  move is issued when its final values fit the 32-bit field of the request, and raises
  \<^verbatim>\<open>OverflowError\<close> otherwise.
\<close>

theorem move_command_mirror:
  assumes "get_windowstate wld = Inr (Some (OfDirection (opposites d)))"
  shows "\<exists>m screen iw ih.
           get_active_monitor wld = Inr m
           \<and> get_screen wld = Inr screen
           \<and> scr_x screen = rect_x m \<and> scr_y screen = rect_y m
           \<and> scr_w screen = rect_width m \<and> scr_h screen = rect_height m
           \<and> move_command d wld = maximise wld
           \<and> maximise wld =
               move_window (scr_x screen) (scr_y screen) (scr_w screen) (scr_h screen)
                 (debug DebugMaximise wld)
           \<and> get_decoration_dimensions wld = Inr (iw, ih)
           \<and> maximise wld =
               (if card32 (scr_x screen + iw div 2) \<and> card32 (scr_y screen + ih - iw div 2)
                   \<and> card32 (scr_w screen - iw) \<and> card32 (scr_h screen - ih)
                then Inr ((debug DebugMaximise wld)
                       \<lparr>requests := requests wld @
                          [SetWmState 0 MAXIMIZED_HORZ, SetWmState 0 MAXIMIZED_VERT,
                           SetMoveResizeWindow (scr_x screen + iw div 2)
                             (scr_y screen + ih - iw div 2)
                             (scr_w screen - iw) (scr_h screen - ih),
                           Flush]\<rparr>)
                else Inl OverflowError)"
proof -
  from get_windowstate_Inr [OF assms] obtain m g
    where m: "get_active_monitor wld = Inr m" and g: "geometry wld = Inr g" by blast
  let ?screen = "Screen_init (rect_x m) (rect_y m) (rect_width m) (rect_height m)"
  let ?iw = "rect_width (parent g) - rect_width (window g)"
  let ?ih = "rect_height (parent g) - rect_height (window g)"
  have s: "get_screen wld = Inr ?screen" using m by (rule get_screen_Inr)
  have mc: "move_command d wld = maximise wld"
    using assms by (rule move_command_opposite)
  have mx: "maximise wld =
      move_window (scr_x ?screen) (scr_y ?screen) (scr_w ?screen) (scr_h ?screen)
        (debug DebugMaximise wld)"
    using maximise_eq [OF m] by (simp add: Screen_init_simps)
  have f: "scr_x ?screen = rect_x m \<and> scr_y ?screen = rect_y m
      \<and> scr_w ?screen = rect_width m \<and> scr_h ?screen = rect_height m"
    by (simp add: Screen_init_simps)
  have dd: "get_decoration_dimensions wld = Inr (?iw, ?ih)"
    using g by (simp add: get_decoration_dimensions_def get_geometry_def)
  have "get_decoration_dimensions (debug DebugMaximise wld) = Inr (?iw, ?ih)"
    using g by (simp add: get_decoration_dimensions_def get_geometry_def debug_simps)
  from move_window_requests [OF this]
  have out: "maximise wld =
      (if card32 (scr_x ?screen + ?iw div 2) \<and> card32 (scr_y ?screen + ?ih - ?iw div 2)
          \<and> card32 (scr_w ?screen - ?iw) \<and> card32 (scr_h ?screen - ?ih)
       then Inr ((debug DebugMaximise wld)
              \<lparr>requests := requests wld @
                 [SetWmState 0 MAXIMIZED_HORZ, SetWmState 0 MAXIMIZED_VERT,
                  SetMoveResizeWindow (scr_x ?screen + ?iw div 2)
                    (scr_y ?screen + ?ih - ?iw div 2)
                    (scr_w ?screen - ?iw) (scr_h ?screen - ?ih),
                  Flush]\<rparr>)
       else Inl OverflowError)"
    unfolding mx by (simp add: debug_simps)
  from m s f mc mx dd out show ?thesis by blast
qed

theorem move_command_mirror_witness:
  "get_windowstate
     (example_world \<lparr>rect_x = 0, rect_y = 0, rect_width = 960, rect_height = 1080\<rparr>)
     = Inr (Some (OfDirection (opposites RIGHT)))
   \<and> move_command RIGHT
        (example_world \<lparr>rect_x = 0, rect_y = 0, rect_width = 960, rect_height = 1080\<rparr>)
     = Inr ((example_world \<lparr>rect_x = 0, rect_y = 0, rect_width = 960, rect_height = 1080\<rparr>)
            \<lparr>requests :=
               [SetWmState 0 MAXIMIZED_HORZ, SetWmState 0 MAXIMIZED_VERT,
                SetMoveResizeWindow 5 25 1910 1050, Flush]\<rparr>)"
proof -
  let ?w = "example_world \<lparr>rect_x = 0, rect_y = 0, rect_width = 960, rect_height = 1080\<rparr>"
  have h: "get_windowstate ?w = Inr (Some (OfDirection (opposites RIGHT)))"
    by (simp add: example_tiled(1))
  have d: "debug DebugMaximise ?w = ?w"
    by (simp add: debug_def example_world_def)
  have r: "requests ?w = []"
    by (simp add: example_world_def)
  have i: "get_decoration_dimensions ?w = Inr (10, 30)"
    by (rule example_insets)
  from move_command_mirror [OF h]
    example_monitor_active [of "\<lparr>rect_x = 0, rect_y = 0, rect_width = 960, rect_height = 1080\<rparr>"]
    d r i
  have "move_command RIGHT ?w
     = Inr (?w\<lparr>requests :=
               [SetWmState 0 MAXIMIZED_HORZ, SetWmState 0 MAXIMIZED_VERT,
                SetMoveResizeWindow 5 25 1910 1050, Flush]\<rparr>)"
    by (auto simp: example_monitor_def card32_def)
  with h show ?thesis by simp
qed

section \<open>The consumer loop\<close>

lemma CALLBACKS_lookup: "map_of CALLBACKS (dir_name d) = Some (move_command d)"
  by (cases d) (simp_all add: CALLBACKS_def)

lemma consume_unhandled:
  "\<forall>event \<in> set pre. map_of callbacks event = None \<Longrightarrow>
   consume (pre @ queue) callbacks wld =
     consume queue callbacks (wld\<lparr>stdout := stdout wld @ map UnhandledEvent pre\<rparr>)"
proof (induction pre arbitrary: wld)
  case Nil
  then show ?case by simp
next
  case (Cons event pre)
  then show ?case by (simp add: print_line_def)
qed

lemma move_command_geometry_fails:
  "get_geometry wld = Inl e \<Longrightarrow> move_command d wld = Inl e"
  by (simp add: move_command_def get_windowstate_def get_screen_def get_active_monitor_def)

lemma move_command_monitors_fail:
  "get_geometry wld = Inr g \<Longrightarrow> get_monitors wld = Inl e \<Longrightarrow> move_command d wld = Inl e"
  by (simp add: move_command_def get_windowstate_def get_screen_def get_active_monitor_def)

lemma get_geometry_stdout:
  "get_geometry (wld\<lparr>stdout := out\<rparr>) = get_geometry wld"
  "get_monitors (wld\<lparr>stdout := out\<rparr>) = get_monitors wld"
  by (simp_all add: get_geometry_def get_monitors_def)

text \<open>
  Claim C4 as stated fails. With no focused window the pipeline of the command "left"
  raises, the exception leaves \<^verbatim>\<open>consume\<close>, and the queued "right" is never taken.
\<close>

theorem consume_crash_counterexample:
  "move_command LEFT unfocused_world = Inl AttributeError
   \<and> consume [''left'', ''right''] CALLBACKS unfocused_world
       = Crashed AttributeError [''right'']"
proof -
  have "get_geometry unfocused_world = Inl AttributeError"
    by (simp add: get_geometry_def unfocused_world_def)
  then have m: "move_command LEFT unfocused_world = Inl AttributeError"
    by (rule move_command_geometry_fails)
  have "map_of CALLBACKS ''left'' = Some (move_command LEFT)"
    using CALLBACKS_lookup [of LEFT] by simp
  with m show ?thesis by simp
qed

text \<open>
  Claim C4, amended. Events that are not keys of \<^verbatim>\<open>CALLBACKS\<close> are printed and skipped,
  and the loop goes on to the next queued event. A failure inside the pipeline of a
  command is not caught: whatever \<^verbatim>\<open>move_command\<close> raises (in particular when the
  window query fails, when the monitor query fails, or when there is no monitor) leaves
  \<^verbatim>\<open>consume\<close>, and the events behind it stay in the queue.
\<close>

theorem consume_failure_propagates:
  assumes "\<forall>event \<in> set pre. map_of CALLBACKS event = None"
  shows "consume pre CALLBACKS wld =
           Blocked (wld\<lparr>stdout := stdout wld @ map UnhandledEvent pre\<rparr>)
   \<and> (move_command d (wld\<lparr>stdout := stdout wld @ map UnhandledEvent pre\<rparr>) = Inl e \<longrightarrow>
        consume (pre @ dir_name d # post) CALLBACKS wld = Crashed e post)
   \<and> (get_geometry wld = Inl e \<longrightarrow>
        consume (pre @ dir_name d # post) CALLBACKS wld = Crashed e post)
   \<and> (\<forall>g. get_geometry wld = Inr g \<and> get_monitors wld = Inl e \<longrightarrow>
        consume (pre @ dir_name d # post) CALLBACKS wld = Crashed e post)
   \<and> (\<forall>g. get_geometry wld = Inr g \<and> get_monitors wld = Inr [] \<longrightarrow>
        consume (pre @ dir_name d # post) CALLBACKS wld = Crashed ValueError post)"
proof -
  let ?w = "wld\<lparr>stdout := stdout wld @ map UnhandledEvent pre\<rparr>"
  from consume_unhandled [OF assms, of "[]" wld]
  have a: "consume pre CALLBACKS wld = Blocked ?w" by simp
  have step: "consume (pre @ dir_name d # post) CALLBACKS wld = Crashed e' post"
    if "move_command d ?w = Inl e'" for e'
    using consume_unhandled [OF assms, of "dir_name d # post" wld] that
    by (simp add: CALLBACKS_lookup)
  have b: "get_geometry wld = Inl e \<longrightarrow>
        consume (pre @ dir_name d # post) CALLBACKS wld = Crashed e post"
    using step move_command_geometry_fails [of ?w e d] by (simp add: get_geometry_stdout)
  have c: "\<forall>g. get_geometry wld = Inr g \<and> get_monitors wld = Inl e \<longrightarrow>
        consume (pre @ dir_name d # post) CALLBACKS wld = Crashed e post"
    using step move_command_monitors_fail [of ?w _ e d] by (simp add: get_geometry_stdout)
  have d: "\<forall>g. get_geometry wld = Inr g \<and> get_monitors wld = Inr [] \<longrightarrow>
        consume (pre @ dir_name d # post) CALLBACKS wld = Crashed ValueError post"
  proof (intro allI impI)
    fix g assume "get_geometry wld = Inr g \<and> get_monitors wld = Inr []"
    then have "move_command d ?w = Inl ValueError"
      by (simp add: move_command_def get_windowstate_def get_screen_def
          get_active_monitor_def get_geometry_stdout)
    then show "consume (pre @ dir_name d # post) CALLBACKS wld = Crashed ValueError post"
      by (rule step)
  qed
  from a step b c d show ?thesis by blast
qed

theorem consume_failure_propagates_witness:
  "map_of CALLBACKS ''maximise'' = None
   \<and> get_geometry unfocused_world = Inl AttributeError
   \<and> consume [''maximise''] CALLBACKS unfocused_world
       = Blocked (unfocused_world\<lparr>stdout := [UnhandledEvent ''maximise'']\<rparr>)
   \<and> consume ([''maximise''] @ dir_name UP # [''left'', ''down'']) CALLBACKS unfocused_world
       = Crashed AttributeError [''left'', ''down'']"
proof -
  have h: "\<forall>event \<in> set [''maximise'']. map_of CALLBACKS event = None"
    by (simp add: CALLBACKS_def)
  have g: "get_geometry unfocused_world = Inl AttributeError"
    by (simp add: get_geometry_def unfocused_world_def)
  have s: "stdout unfocused_world = []"
    by (simp add: unfocused_world_def)
  from consume_failure_propagates [OF h, of unfocused_world UP AttributeError "[''left'', ''down'']"]
    g
  have "consume [''maximise''] CALLBACKS unfocused_world
       = Blocked (unfocused_world\<lparr>stdout := stdout unfocused_world
                                     @ map UnhandledEvent [''maximise'']\<rparr>)
   \<and> consume ([''maximise''] @ dir_name UP # [''left'', ''down'']) CALLBACKS unfocused_world
       = Crashed AttributeError [''left'', ''down'']"
    by blast
  with h g s show ?thesis by (simp del: consume.simps)
qed

end
